theory Spec2Isabelle
  imports Complex_Main
begin

section \<open>JavaScript values\<close>

text \<open>
  The scanner is written in JavaScript. Its numbers are modelled as exact reals: every
  decimal string that the code hands to \<^verbatim>\<open>parseFloat\<close> (gas prices in gwei produced by
  \<^verbatim>\<open>ethers.formatUnits\<close>, amounts, percentile strings) is represented by the number it
  denotes. Where IEEE arithmetic leaves the reals (a division by zero that yields
  \<^verbatim>\<open>Infinity\<close>) the branch is written out in the definition that contains it.
\<close>

definition Math_round :: "real \<Rightarrow> int" where
  \<comment> \<open>\<^verbatim>\<open>Math.round\<close>: nearest integer, halves towards plus infinity.\<close>
  "Math_round x = \<lfloor>x + 1 / 2\<rfloor>"

definition toFixed2 :: "real \<Rightarrow> real" where
  \<comment> \<open>The number denoted by \<^verbatim>\<open>x.toFixed(2)\<close>: two decimals, halves away from zero.\<close>
  "toFixed2 x = (if x < 0 then - (real_of_int \<lfloor>- x * 100 + 1 / 2\<rfloor> / 100)
                 else real_of_int \<lfloor>x * 100 + 1 / 2\<rfloor> / 100)"

fun split_slash :: "string \<Rightarrow> string list" where
  \<comment> \<open>\<^verbatim>\<open>s.split('/')\<close>\<close>
  "split_slash [] = [[]]"
| "split_slash (c # cs) =
     (if c = CHR ''/'' then [] # split_slash cs
      else (case split_slash cs of [] \<Rightarrow> [[c]] | w # ws \<Rightarrow> (c # w) # ws))"

definition at_index :: "'a list \<Rightarrow> nat \<Rightarrow> 'a option" where
  \<comment> \<open>\<^verbatim>\<open>xs[i]\<close>; \<open>None\<close> is \<^verbatim>\<open>undefined\<close>.\<close>
  "at_index xs i = (if i < length xs then Some (xs ! i) else None)"

definition startsWith :: "string \<Rightarrow> string \<Rightarrow> bool" where
  "startsWith s p = (take (length p) s = p)"

section \<open>Data model\<close>

record pendingTx =
  tx_hash :: string
  tx_from :: string
  tx_to :: string
  tx_value :: real
  tx_gasPrice :: real
  tx_amount :: "real option"
  tx_input :: "string option"
  tx_tokenPair :: string
  tx_timestamp :: int
  tx_isSuspicious :: bool

record gasPercentiles =
  p25 :: real
  p50 :: real
  p75 :: real
  p90 :: real

record mempoolData =
  md_tokenPair :: string
  currentBlock :: int
  blockTimeEstimate :: int
  gasPercentiles :: gasPercentiles
  competingTxs :: "pendingTx list"
  pendingTxCount :: "nat option"
  avgBlockTxCount :: "int option"
  dataSource :: string
  md_confidence :: real
  isRealTime :: bool
  md_timestamp :: int

text \<open>
  The trade descriptor as the pattern detectors read it. \<open>gasPrice\<close> is \<open>None\<close> when the
  property is absent (or an empty string), in which case \<^verbatim>\<open>userTx.gasPrice || p50\<close>
  selects the snapshot's median.
\<close>

record userTx =
  token_in :: string
  token_out :: string
  amount_in :: real
  gasPrice :: "real option"

record patternResult =
  detected :: bool
  confidence :: real

record sandwichResult = patternResult +
  frontRunners :: "pendingTx list"
  backRunners :: "pendingTx list"

record frontrunResult = patternResult +
  competitorCount :: nat
  competitors :: "pendingTx list"

record backrunResult = patternResult +
  backrun_backRunners :: "pendingTx list"

record copycatResult = patternResult +
  copycat_count :: nat
  copycats :: "pendingTx list"

record jitResult = patternResult +
  liquidityTxs :: "pendingTx list"

record patterns =
  sandwich :: sandwichResult
  frontrun :: frontrunResult
  backrun :: backrunResult
  copycat :: copycatResult
  jit :: jitResult

section \<open>Pattern analyzer\<close>

definition userPair :: "userTx \<Rightarrow> string" where
  \<comment> \<open>\<^verbatim>\<open>`${userTx.token_in}/${userTx.token_out}`\<close>\<close>
  "userPair userTx = token_in userTx @ ''/'' @ token_out userTx"

definition userGasPrice :: "mempoolData \<Rightarrow> userTx \<Rightarrow> real" where
  \<comment> \<open>\<^verbatim>\<open>parseFloat(userTx.gasPrice || mempoolData.gasPercentiles.p50)\<close>\<close>
  "userGasPrice mempoolData userTx =
     (case gasPrice userTx of Some g \<Rightarrow> g | None \<Rightarrow> p50 (gasPercentiles mempoolData))"

definition isSameOrRelatedPair :: "string \<Rightarrow> string \<Rightarrow> bool" where
  "isSameOrRelatedPair pair1 pair2 =
     (if pair1 = [] \<or> pair2 = [] then False
      else if pair1 = pair2 then True
      else let tokens1 = split_slash pair1; tokens2 = split_slash pair2
           in if at_index tokens1 0 = at_index tokens2 1 \<and> at_index tokens1 1 = at_index tokens2 0
              then True
              else list_ex (\<lambda>t. List.member tokens2 t) tokens1)"

definition isOppositeDirection :: "pendingTx \<Rightarrow> userTx \<Rightarrow> bool" where
  "isOppositeDirection tx userTx =
     (if tx_tokenPair tx = [] then False
      else let ts = split_slash (tx_tokenPair tx)
           in at_index ts 0 = Some (token_out userTx) \<and> at_index ts 1 = Some (token_in userTx))"

definition avgGas :: "pendingTx list \<Rightarrow> real" where
  \<comment> \<open>\<^verbatim>\<open>txs.reduce((sum, tx) => sum + parseFloat(tx.gasPrice), 0) / txs.length\<close>,
      only evaluated on non-empty lists.\<close>
  "avgGas txs = sum_list (map tx_gasPrice txs) / real (length txs)"

definition checkGasOrdering :: "pendingTx list \<Rightarrow> pendingTx list \<Rightarrow> real \<Rightarrow> bool" where
  "checkGasOrdering fr br u =
     (if fr = [] \<or> br = [] then False
      else avgGas fr > u \<and> u > avgGas br)"

definition checkGasPositioning :: "pendingTx list \<Rightarrow> real \<Rightarrow> bool" where
  "checkGasPositioning br u =
     (if br = [] then False
      else avgGas br < u \<and> avgGas br > u * 0.85)"

definition detectSandwichPattern :: "mempoolData \<Rightarrow> userTx \<Rightarrow> sandwichResult" where
  "detectSandwichPattern mempoolData userTx =
     (if competingTxs mempoolData = []
      then \<lparr>detected = False, confidence = 0, frontRunners = [], backRunners = []\<rparr>
      else let u = userGasPrice mempoolData userTx;
               fr = filter (\<lambda>tx. tx_gasPrice tx > u * 1.05 \<and>
                                   isSameOrRelatedPair (tx_tokenPair tx) (userPair userTx))
                           (competingTxs mempoolData);
               br = filter (\<lambda>tx. tx_gasPrice tx < u * 0.95 \<and>
                                   isSameOrRelatedPair (tx_tokenPair tx) (userPair userTx) \<and>
                                   isOppositeDirection tx userTx)
                           (competingTxs mempoolData);
               d = (length fr > 0 \<and> length br > 0)
           in \<lparr>detected = d,
               confidence = (if d then min (0.6 + real (length fr) * 0.1 + real (length br) * 0.1 +
                                            (if checkGasOrdering fr br u then 0.2 else 0)) 1.0
                             else 0),
               frontRunners = fr, backRunners = br\<rparr>)"

definition maxGasDiff :: "pendingTx list \<Rightarrow> real \<Rightarrow> real" where
  \<comment> \<open>\<^verbatim>\<open>Math.max(...competitors.map(tx => (parseFloat(tx.gasPrice) - u) / u))\<close> for \<open>u \<noteq> 0\<close>\<close>
  "maxGasDiff cs u = Max (set (map (\<lambda>tx. (tx_gasPrice tx - u) / u) cs))"

definition detectFrontrunPattern :: "mempoolData \<Rightarrow> userTx \<Rightarrow> frontrunResult" where
  \<comment> \<open>For \<open>u = 0\<close> every competitor has a positive gas price, the quotient is
      \<^verbatim>\<open>Infinity\<close> and \<^verbatim>\<open>Math.min(Infinity, 1.0)\<close> is 1.\<close>
  "detectFrontrunPattern mempoolData userTx =
     (if competingTxs mempoolData = []
      then \<lparr>detected = False, confidence = 0, competitorCount = 0, competitors = []\<rparr>
      else let u = userGasPrice mempoolData userTx;
               cs = filter (\<lambda>tx. tx_gasPrice tx > u \<and>
                                   isSameOrRelatedPair (tx_tokenPair tx) (userPair userTx))
                           (competingTxs mempoolData);
               d = (length cs > 0)
           in \<lparr>detected = d,
               confidence = (if d then (if u = 0 then 1.0
                                        else min (0.5 + real (length cs) * 0.1 + maxGasDiff cs u * 0.3) 1.0)
                             else 0),
               competitorCount = length cs, competitors = cs\<rparr>)"

definition detectBackrunPattern :: "mempoolData \<Rightarrow> userTx \<Rightarrow> backrunResult" where
  "detectBackrunPattern mempoolData userTx =
     (if competingTxs mempoolData = []
      then \<lparr>detected = False, confidence = 0, backrun_backRunners = []\<rparr>
      else let u = userGasPrice mempoolData userTx;
               br = filter (\<lambda>tx. tx_gasPrice tx < u \<and> tx_gasPrice tx > u * 0.8 \<and>
                                   isSameOrRelatedPair (tx_tokenPair tx) (userPair userTx) \<and>
                                   isOppositeDirection tx userTx)
                           (competingTxs mempoolData);
               d = (length br > 0)
           in \<lparr>detected = d,
               confidence = (if d then min (0.4 + real (length br) * 0.15 +
                                            (if checkGasPositioning br u then 0.2 else 0)) 1.0
                             else 0),
               backrun_backRunners = br\<rparr>)"

definition isSimilarAmount :: "real \<Rightarrow> real \<Rightarrow> bool" where
  \<comment> \<open>\<^verbatim>\<open>Math.abs(v - userAmount) / userAmount < 0.1\<close>; with \<open>userAmount = 0\<close> the quotient is
      \<^verbatim>\<open>Infinity\<close> or \<^verbatim>\<open>NaN\<close> and the comparison is false.\<close>
  "isSimilarAmount v userAmount = (userAmount \<noteq> 0 \<and> \<bar>v - userAmount\<bar> / userAmount < 0.1)"

definition detectCopycatPattern :: "mempoolData \<Rightarrow> userTx \<Rightarrow> copycatResult" where
  "detectCopycatPattern mempoolData userTx =
     (if competingTxs mempoolData = []
      then \<lparr>detected = False, confidence = 0, copycat_count = 0, copycats = []\<rparr>
      else let u = userGasPrice mempoolData userTx;
               userAmount = amount_in userTx;
               cc = filter (\<lambda>tx. tx_tokenPair tx = userPair userTx \<and>
                                   isSimilarAmount (tx_value tx) userAmount \<and>
                                   tx_gasPrice tx > u)
                           (competingTxs mempoolData);
               d = (length cc > 0)
           in \<lparr>detected = d,
               confidence = (if d then min (0.7 + real (length cc) * 0.1) 1.0 else 0),
               copycat_count = length cc, copycats = cc\<rparr>)"

definition isAddLiquidity :: "pendingTx \<Rightarrow> bool" where
  "isAddLiquidity tx =
     (case tx_input tx of
        None \<Rightarrow> False
      | Some i \<Rightarrow> i \<noteq> [] \<and> (startsWith i ''0xe8e33700'' \<or> startsWith i ''0xf305d719''))"

definition detectJITLiquidityPattern :: "mempoolData \<Rightarrow> userTx \<Rightarrow> jitResult" where
  "detectJITLiquidityPattern mempoolData userTx =
     (if competingTxs mempoolData = []
      then \<lparr>detected = False, confidence = 0, liquidityTxs = []\<rparr>
      else let lq = filter isAddLiquidity (competingTxs mempoolData);
               d = (length lq > 0)
           in \<lparr>detected = d, confidence = (if d then 0.6 else 0), liquidityTxs = lq\<rparr>)"

definition entries :: "patterns \<Rightarrow> (bool \<times> real \<times> real) list" where
  \<comment> \<open>\<^verbatim>\<open>Object.entries(patterns)\<close> in insertion order, each with \<^verbatim>\<open>weights[pattern]\<close>.\<close>
  "entries ps =
     [(detected (sandwich ps), confidence (sandwich ps), 0.40),
      (detected (frontrun ps), confidence (frontrun ps), 0.30),
      (detected (backrun ps), confidence (backrun ps), 0.10),
      (detected (copycat ps), confidence (copycat ps), 0.15),
      (detected (jit ps), confidence (jit ps), 0.05)]"

definition calculateAggregateRisk :: "patterns \<Rightarrow> int" where
  "calculateAggregateRisk ps =
     min (Math_round (foldl (\<lambda>totalRisk (d, c, w).
                               if d \<and> c \<noteq> 0 then totalRisk + c * w * 100 else totalRisk)
                            0 (entries ps)))
         100"

definition analyzePatterns :: "mempoolData \<Rightarrow> userTx \<Rightarrow> patterns" where
  \<comment> \<open>The \<^verbatim>\<open>patterns\<close> object built by \<^verbatim>\<open>analyzeMEVPatterns\<close>.\<close>
  "analyzePatterns mempoolData userTx =
     \<lparr>sandwich = detectSandwichPattern mempoolData userTx,
      frontrun = detectFrontrunPattern mempoolData userTx,
      backrun = detectBackrunPattern mempoolData userTx,
      copycat = detectCopycatPattern mempoolData userTx,
      jit = detectJITLiquidityPattern mempoolData userTx\<rparr>"

definition analyzeMEVPatterns :: "mempoolData \<Rightarrow> userTx \<Rightarrow> patterns \<times> int" where
  \<comment> \<open>\<^verbatim>\<open>patterns\<close> and \<^verbatim>\<open>aggregateRisk\<close> of the result.\<close>
  "analyzeMEVPatterns mempoolData userTx =
     (let ps = analyzePatterns mempoolData userTx in (ps, calculateAggregateRisk ps))"


section \<open>Legacy detectors\<close>

record legacyRisk =
  risk :: string
  score :: int
  risk_type :: string
  risk_confidence :: real


definition calculateUserGasPrice :: "userTx \<Rightarrow> mempoolData \<Rightarrow> real" where
  "calculateUserGasPrice userTx mempoolData =
     (case gasPrice userTx of Some g \<Rightarrow> g | None \<Rightarrow> p50 (gasPercentiles mempoolData))"

definition calculatePriceImpact :: "real \<Rightarrow> real" where
  \<comment> \<open>the utility with its default \<^verbatim>\<open>liquidityPool = 1000000\<close>\<close>
  "calculatePriceImpact amountIn = min ((amountIn / 1000000) * 100) 100"

definition detectSandwich :: "userTx \<Rightarrow> mempoolData \<Rightarrow> legacyRisk" where
  "detectSandwich userTx mempoolData =
     (let userAmount = amount_in userTx;
          u = calculateUserGasPrice userTx mempoolData;
          tokenPair = token_in userTx @ ''/'' @ token_out userTx;
          reversePair = token_out userTx @ ''/'' @ token_in userTx;
          samePairTxs = filter (\<lambda>tx. tx_tokenPair tx = tokenPair \<or> tx_tokenPair tx = reversePair)
                               (competingTxs mempoolData)
      in if length samePairTxs = 0
         then \<lparr>risk = ''low'', score = 10, risk_type = ''none'', risk_confidence = 0.9\<rparr>
         else let fr = filter (\<lambda>tx. tx_gasPrice tx > u * 1.05 \<and> tx_tokenPair tx = tokenPair) samePairTxs;
                  br = filter (\<lambda>tx. tx_gasPrice tx < u * 0.95 \<and> tx_tokenPair tx = reversePair) samePairTxs
              in if length fr > 0 \<and> length br > 0
                 then let priceImpact = calculatePriceImpact userAmount;
                          riskScore = 70 + min (int (length fr) * 5) 15
                                      + (if userAmount > 10000 then 5 else 0)
                                      + (if userAmount > 50000 then 5 else 0)
                                      + (if priceImpact > 1 then 5 else 0)
                                      + (if priceImpact > 2 then 5 else 0)
                      in \<lparr>risk = (if riskScore \<ge> 85 then ''critical'' else ''high''),
                          score = min riskScore 100, risk_type = ''sandwich'', risk_confidence = 0.85\<rparr>
                 else if length fr > 0
                 then \<lparr>risk = ''medium'', score = 50 + int (length fr) * 5,
                       risk_type = ''potential-sandwich'', risk_confidence = 0.6\<rparr>
                 else \<lparr>risk = ''low'', score = 20 + int (length samePairTxs) * 3,
                       risk_type = ''none'', risk_confidence = 0.7\<rparr>)"

definition getUserGasPrice :: "userTx \<Rightarrow> mempoolData \<Rightarrow> real" where
  "getUserGasPrice userTx mempoolData =
     (case gasPrice userTx of Some g \<Rightarrow> g | None \<Rightarrow> p50 (gasPercentiles mempoolData))"

definition detectFrontRun :: "userTx \<Rightarrow> mempoolData \<Rightarrow> legacyRisk" where
  "detectFrontRun userTx mempoolData =
     (let u = getUserGasPrice userTx mempoolData;
          tokenPair = token_in userTx @ ''/'' @ token_out userTx;
          similarTxs = filter (\<lambda>tx. tx_tokenPair tx = tokenPair) (competingTxs mempoolData)
      in if length similarTxs = 0
         then \<lparr>risk = ''low'', score = 5, risk_type = ''none'', risk_confidence = 0.9\<rparr>
         else let high = filter (\<lambda>tx. tx_gasPrice tx > u * 1.1) similarTxs;
                  veryHigh = filter (\<lambda>tx. tx_gasPrice tx > u * 1.25) similarTxs;
                  riskScore = min (if length veryHigh > 0 then 70 + int (length veryHigh) * 5
                                   else if length high > 0 then 50 + int (length high) * 5
                                   else if length similarTxs > 0 then 20 + int (length similarTxs) * 3
                                   else 0) 100
              in if length veryHigh > 0
                 then \<lparr>risk = (if riskScore \<ge> 85 then ''critical'' else ''high''), score = riskScore,
                       risk_type = ''front-run'', risk_confidence = 0.75\<rparr>
                 else if length high > 0
                 then \<lparr>risk = ''medium'', score = riskScore, risk_type = ''front-run'',
                       risk_confidence = 0.6\<rparr>
                 else \<lparr>risk = ''low'', score = riskScore, risk_type = ''none'',
                       risk_confidence = 0.8\<rparr>)"


text \<open>
  Historical analysis reads the attack database and the wall clock; the query results and
  the clock are parameters. \<open>None\<close> stands for a failed query (the \<^verbatim>\<open>catch\<close> branch).
\<close>

record attackHistory =
  totalAttacks :: nat
  recentAttackCount :: nat
  avgProfit :: real

definition analyzeHistoricalPatterns :: "attackHistory option \<Rightarrow> int" where
  \<comment> \<open>\<^verbatim>\<open>riskScore\<close> of the result\<close>
  "analyzeHistoricalPatterns h =
     (case h of
        None \<Rightarrow> 0
      | Some a \<Rightarrow>
          (if totalAttacks a > 50 then 15 else if totalAttacks a > 20 then 10
           else if totalAttacks a > 10 then 5 else 0)
          + (if recentAttackCount a > 5 then 15 else if recentAttackCount a > 2 then 10
             else if recentAttackCount a > 0 then 5 else 0)
          + (if avgProfit a > 100 then 10 else if avgProfit a > 50 then 5 else 0))"

definition checkKnownAttackers :: "bool option \<Rightarrow> int" where
  \<comment> \<open>\<^verbatim>\<open>riskIncrease\<close>; \<open>None\<close>: no wallet address given, or the lookup failed\<close>
  "checkKnownAttackers isKnown = (case isKnown of Some True \<Rightarrow> 30 | _ \<Rightarrow> 0)"

definition analyzeTimingPatterns :: "nat \<Rightarrow> nat \<Rightarrow> int" where
  \<comment> \<open>\<^verbatim>\<open>riskScore\<close> from the UTC hour and week day\<close>
  "analyzeTimingPatterns hour day =
     (if hour \<ge> 12 \<and> hour \<le> 18 then 5 else 0) + (if day = 0 \<or> day = 6 then 3 else 0)"

record historyInputs =
  attacks :: "attackHistory option"
  knownAttacker :: "bool option"
  utcHour :: nat
  utcDay :: nat

definition performHistoricalAnalysis :: "historyInputs \<Rightarrow> int" where
  \<comment> \<open>\<^verbatim>\<open>riskScore\<close> of the combined analysis\<close>
  "performHistoricalAnalysis h =
     min (analyzeHistoricalPatterns (attacks h) + checkKnownAttackers (knownAttacker h)
          + analyzeTimingPatterns (utcHour h) (utcDay h)) 40"

section \<open>Enhanced server: scan handler\<close>

definition congestionScore :: "mempoolData \<Rightarrow> int" where
  \<comment> \<open>\<^verbatim>\<open>analyzeMempoolCongestion(mempoolData).congestionScore\<close>\<close>
  "congestionScore mempoolData =
     (case pendingTxCount mempoolData of
        None \<Rightarrow> 0
      | Some n \<Rightarrow> if n = 0 then 0
                  else if n > 1000 then 90 else if n > 500 then 70
                  else if n > 200 then 40 else 20)"


text \<open>
  The validated request carries \<^verbatim>\<open>gas_price\<close>; the schema strips every other key, so the
  object handed to the detectors has no \<^verbatim>\<open>gasPrice\<close> property and they fall back to the
  snapshot's median.
\<close>

record scanRequest =
  req_token_in :: string
  req_token_out :: string
  req_amount_in :: real
  req_gas_price :: "real option"

definition detectorView :: "scanRequest \<Rightarrow> userTx" where
  "detectorView input =
     \<lparr>token_in = req_token_in input, token_out = req_token_out input,
      amount_in = req_amount_in input, gasPrice = None\<rparr>"

definition scanRiskScore :: "mempoolData \<Rightarrow> scanRequest \<Rightarrow> real \<Rightarrow> historyInputs \<Rightarrow> int" where
  \<comment> \<open>\<^verbatim>\<open>riskScore\<close> of the \<^verbatim>\<open>scan_transaction\<close> handler; \<open>priceImpact\<close> is the parsed
      \<^verbatim>\<open>priceImpact.priceImpact\<close> of the pool service.\<close>
  "scanRiskScore mempoolData input priceImpact history =
     (let patternRiskScore = snd (analyzeMEVPatterns mempoolData (detectorView input));
          sandwichRisk = detectSandwich (detectorView input) mempoolData;
          frontRunRisk = detectFrontRun (detectorView input) mempoolData;
          historicalRisk = performHistoricalAnalysis history;
          legacyRiskScore = real_of_int (score sandwichRisk) * 0.45
                            + real_of_int (score frontRunRisk) * 0.35
                            + real_of_int historicalRisk * 0.20;
          combinedRisk = real_of_int patternRiskScore * 0.6 + legacyRiskScore * 0.4;
          priceImpactRisk = (if priceImpact > 2 then 10 else 0);
          congestionRisk = real_of_int (congestionScore mempoolData) * 0.1
      in min (Math_round (combinedRisk + priceImpactRisk + congestionRisk)) 100)"



section \<open>WebSocket mempool subscriber\<close>

record pendingTxCache =
  transactions :: "pendingTx list"
  lastUpdate :: int
  isConnected :: bool
  source :: string

definition CACHE_TTL :: int where "CACHE_TTL = 5000"
definition MAX_CACHED_TXS :: nat where "MAX_CACHED_TXS = 100"
definition MAX_RECONNECT_ATTEMPTS :: nat where "MAX_RECONNECT_ATTEMPTS = 5"

definition initialPendingTxCache :: pendingTxCache where
  "initialPendingTxCache = \<lparr>transactions = [], lastUpdate = 0, isConnected = False, source = ''none''\<rparr>"

definition addToPendingCache :: "pendingTxCache \<Rightarrow> pendingTx \<Rightarrow> int \<Rightarrow> pendingTxCache" where
  \<comment> \<open>\<open>now\<close> is \<^verbatim>\<open>Date.now()\<close>\<close>
  "addToPendingCache c tx now =
     (let ts = tx # transactions c
      in c\<lparr>transactions := (if length ts > MAX_CACHED_TXS then take MAX_CACHED_TXS ts else ts),
           lastUpdate := now\<rparr>)"

record wsData =
  wd_transactions :: "pendingTx list"
  wd_isRealTime :: bool
  wd_source :: string
  wd_cacheAge :: int
  wd_totalCached :: "nat option"

definition getCachedPendingTransactions :: "pendingTxCache \<Rightarrow> int \<Rightarrow> wsData" where
  "getCachedPendingTransactions c now =
     (if now - lastUpdate c > CACHE_TTL
      then \<lparr>wd_transactions = [], wd_isRealTime = False, wd_source = source c,
            wd_cacheAge = now - lastUpdate c, wd_totalCached = None\<rparr>
      else let filtered = filter (\<lambda>tx. True) (transactions c)
           in \<lparr>wd_transactions = take 20 filtered, wd_isRealTime = isConnected c,
               wd_source = source c, wd_cacheAge = now - lastUpdate c,
               wd_totalCached = Some (length (transactions c))\<rparr>)"

record wsStatus =
  ws_isConnected :: bool
  ws_source :: string
  ws_cachedTransactions :: nat
  ws_lastUpdate :: int
  ws_cacheAge :: int

definition getWebSocketStatus :: "pendingTxCache \<Rightarrow> int \<Rightarrow> wsStatus" where
  "getWebSocketStatus c now =
     \<lparr>ws_isConnected = isConnected c, ws_source = source c,
      ws_cachedTransactions = length (transactions c), ws_lastUpdate = lastUpdate c,
      ws_cacheAge = now - lastUpdate c\<rparr>"

text \<open>
  The socket handlers installed by \<^verbatim>\<open>initializeInfuraWebSocket\<close>. The subscriber state is
  the module-level cache, the retry counter, and the number of reconnect timers set so
  far (each \<^verbatim>\<open>setTimeout(() => initializeInfuraWebSocket(infuraKey), 5000)\<close> adds one).
\<close>

record subscriber =
  cache :: pendingTxCache
  reconnectAttempts :: nat
  reconnectsScheduled :: nat

datatype socketEvent = Open | SocketError | Close

definition on_open :: "subscriber \<Rightarrow> subscriber" where
  "on_open s = s\<lparr>cache := (cache s)\<lparr>isConnected := True, source := ''infura''\<rparr>,
                 reconnectAttempts := 0\<rparr>"

definition on_error :: "subscriber \<Rightarrow> subscriber" where
  "on_error s = s\<lparr>cache := (cache s)\<lparr>isConnected := False\<rparr>\<rparr>"

definition on_close :: "subscriber \<Rightarrow> subscriber" where
  "on_close s =
     (let s' = s\<lparr>cache := (cache s)\<lparr>isConnected := False, source := ''none''\<rparr>\<rparr>
      in if reconnectAttempts s' < MAX_RECONNECT_ATTEMPTS
         then s'\<lparr>reconnectAttempts := reconnectAttempts s' + 1,
                 reconnectsScheduled := reconnectsScheduled s' + 1\<rparr>
         else s')"

fun handle :: "subscriber \<Rightarrow> socketEvent \<Rightarrow> subscriber" where
  "handle s Open = on_open s"
| "handle s SocketError = on_error s"
| "handle s Close = on_close s"

definition run :: "subscriber \<Rightarrow> socketEvent list \<Rightarrow> subscriber" where
  \<comment> \<open>the handlers applied to a sequence of socket events, oldest first\<close>
  "run s evs = foldl handle s evs"

definition initialSubscriber :: subscriber where
  "initialSubscriber = \<lparr>cache = initialPendingTxCache, reconnectAttempts = 0, reconnectsScheduled = 0\<rparr>"

section \<open>Gas percentiles\<close>

definition defaultGasPercentiles :: gasPercentiles where
  "defaultGasPercentiles = \<lparr>p25 = 20, p50 = 35, p75 = 50, p90 = 80\<rparr>"

definition percentileIndex :: "nat \<Rightarrow> real \<Rightarrow> nat" where
  \<comment> \<open>\<^verbatim>\<open>Math.floor(n * q)\<close>\<close>
  "percentileIndex n q = nat \<lfloor>real n * q\<rfloor>"

definition orDefault :: "real option \<Rightarrow> real \<Rightarrow> real" where
  \<comment> \<open>\<^verbatim>\<open>x || d\<close> on an array element: \<^verbatim>\<open>undefined\<close> and 0 are falsy\<close>
  "orDefault x d = (case x of None \<Rightarrow> d | Some v \<Rightarrow> if v = 0 then d else v)"

definition wsGasPrices :: "pendingTx list \<Rightarrow> real list" where
  \<comment> \<open>\<^verbatim>\<open>transactions.map(parseFloat).filter(gp => !isNaN(gp) && gp > 0).sort((a, b) => a - b)\<close>\<close>
  "wsGasPrices txs = sort (filter (\<lambda>gp. gp > 0) (map tx_gasPrice txs))"

definition wsGasPercentiles :: "pendingTx list \<Rightarrow> gasPercentiles" where
  \<comment> \<open>the percentile block of \<^verbatim>\<open>fetchFromWebSocketCache\<close>\<close>
  "wsGasPercentiles txs =
     (let gasPrices = wsGasPrices txs; n = length gasPrices
      in if n > 0
         then \<lparr>p25 = toFixed2 (orDefault (at_index gasPrices (percentileIndex n 0.25)) 20),
               p50 = toFixed2 (orDefault (at_index gasPrices (percentileIndex n 0.50)) 35),
               p75 = toFixed2 (orDefault (at_index gasPrices (percentileIndex n 0.75)) 50),
               p90 = toFixed2 (orDefault (at_index gasPrices (percentileIndex n 0.90)) 80)\<rparr>
         else defaultGasPercentiles)"

datatype error = NoWorkingProvider | RequestFailed

record block =
  baseFeePerGas :: "nat option"
  txCount :: "nat option"

text \<open>
  An RPC provider is given by the outcome of each request the aggregator sends to it;
  \<open>Inl\<close> is a rejected promise. \<open>pendingAnalysis\<close> is the pair
  \<^verbatim>\<open>(competingTxs, pendingTxs.length)\<close> that \<^verbatim>\<open>getPendingTransactions\<close> and
  \<^verbatim>\<open>analyzePendingTransactions\<close> compute from the node's pending block; both catch their
  own errors and always return.
\<close>

record provider =
  getBlockNumber :: "error + int"
  getBlock :: "int \<Rightarrow> error + block option"
  pendingAnalysis :: "pendingTx list \<times> nat"

definition baseFeeGwei :: "error + block option \<Rightarrow> real option" where
  \<comment> \<open>\<^verbatim>\<open>b && b.baseFeePerGas\<close>, then \<^verbatim>\<open>Number(ethers.formatUnits(b.baseFeePerGas, 'gwei'))\<close>\<close>
  "baseFeeGwei r =
     (case r of
        Inr (Some b) \<Rightarrow> (case baseFeePerGas b of
                           Some wei \<Rightarrow> if wei = 0 then None else Some (real wei / 10 ^ 9)
                         | None \<Rightarrow> None)
      | _ \<Rightarrow> None)"

definition getGasPricePercentiles :: "provider \<Rightarrow> int \<Rightarrow> gasPercentiles" where
  "getGasPricePercentiles p cb =
     (let blocks = map (getBlock p) [cb, cb - 1, cb - 2, cb - 3, cb - 4]
      in if list_ex isl blocks then defaultGasPercentiles
         else let baseFees = List.map_filter baseFeeGwei blocks
              in if length baseFees = 0 then defaultGasPercentiles
                 else let sorted = sort baseFees; n = length sorted
                      in \<lparr>p25 = toFixed2 (sorted ! percentileIndex n 0.25 * 1.1),
                          p50 = toFixed2 (sorted ! percentileIndex n 0.50 * 1.25),
                          p75 = toFixed2 (sorted ! percentileIndex n 0.75 * 1.5),
                          p90 = toFixed2 (sorted ! percentileIndex n 0.90 * 2)\<rparr>)"

section \<open>Freshness cache\<close>

text \<open>
  The \<^verbatim>\<open>mempool_cache\<close> table: rows in insertion order. \<open>cached_at\<close> is the database
  clock in whole seconds at insertion. The stored JSON text is represented by the snapshot
  it encodes. Among rows with the same \<open>cached_at\<close> the query is taken to return the one
  inserted last. Failures of the database itself are not modelled.
\<close>

record cacheRow =
  row_token_pair :: string
  row_data :: mempoolData
  cached_at :: int

fun newest :: "cacheRow list \<Rightarrow> cacheRow option" where
  \<comment> \<open>\<^verbatim>\<open>ORDER BY cached_at DESC LIMIT 1\<close>\<close>
  "newest [] = None"
| "newest (r # rs) =
     (case newest rs of
        None \<Rightarrow> Some r
      | Some r' \<Rightarrow> if cached_at r' \<ge> cached_at r then Some r' else Some r)"

definition getCachedMempoolData :: "cacheRow list \<Rightarrow> string \<Rightarrow> int \<Rightarrow> mempoolData option" where
  \<comment> \<open>\<open>now\<close> is \<^verbatim>\<open>Date.now()\<close> in milliseconds; \<^verbatim>\<open>maxAgeSeconds\<close> has its default 3\<close>
  "getCachedMempoolData db tokenPair now =
     (let since = now div 1000 - 3
      in map_option row_data
           (newest (filter (\<lambda>r. row_token_pair r = tokenPair \<and> cached_at r > since) db)))"

definition cacheMempoolData :: "cacheRow list \<Rightarrow> string \<Rightarrow> mempoolData \<Rightarrow> int \<Rightarrow> cacheRow list" where
  "cacheMempoolData db tokenPair data now =
     filter (\<lambda>r. \<not> cached_at r < now div 1000 - 10) db
     @ [\<lparr>row_token_pair = tokenPair, row_data = data, cached_at = now div 1000\<rparr>]"

section \<open>Multi-source aggregator\<close>

record blockPrices =
  estimatedPrices :: "real option list"
  bp_blockNumber :: int
  estimatedTransactionCount :: int

text \<open>
  The environment of one call: the configured keys, the behaviour of each RPC endpoint,
  and the Blocknative answer (\<open>None\<close>: the request failed, was not \<^verbatim>\<open>ok\<close>, or carried no
  block prices). Each outcome is fixed for the duration of the call.
\<close>

record upstream =
  ALCHEMY_API_KEY :: bool
  INFURA_PROJECT_ID :: bool
  BLOCKNATIVE_API_KEY :: bool
  alchemy :: provider
  infura :: provider
  publicRPCs :: "provider list"
  blocknative :: "blockPrices option"

datatype strategy = WebSocketCache | Blocknative | EthereumRPC | BlockAnalysis

definition fetchFromWebSocketCache :: "pendingTxCache \<Rightarrow> string \<Rightarrow> string \<Rightarrow> int \<Rightarrow> mempoolData option" where
  "fetchFromWebSocketCache c tokenIn tokenOut now =
     (let wsData = getCachedPendingTransactions c now
      in if \<not> wd_isRealTime wsData then None
         else Some \<lparr>md_tokenPair = tokenIn @ ''/'' @ tokenOut,
                    currentBlock = 0,
                    blockTimeEstimate = 12,
                    gasPercentiles = wsGasPercentiles (wd_transactions wsData),
                    competingTxs = wd_transactions wsData,
                    pendingTxCount = wd_totalCached wsData,
                    avgBlockTxCount = None,
                    dataSource = ''real-mempool-'' @ wd_source wsData,
                    md_confidence = 0.98,
                    isRealTime = True,
                    md_timestamp = now div 1000\<rparr>)"

definition priceOr :: "real option list \<Rightarrow> nat \<Rightarrow> real \<Rightarrow> real" where
  \<comment> \<open>\<^verbatim>\<open>estimatedPrices[i]?.price?.toString() || d\<close>\<close>
  "priceOr ps i d = (case at_index ps i of Some (Some v) \<Rightarrow> v | _ \<Rightarrow> d)"

definition fetchFromBlocknative :: "upstream \<Rightarrow> string \<Rightarrow> string \<Rightarrow> int \<Rightarrow> mempoolData option" where
  "fetchFromBlocknative up tokenIn tokenOut now =
     (case blocknative up of
        None \<Rightarrow> None
      | Some bp \<Rightarrow>
          Some \<lparr>md_tokenPair = tokenIn @ ''/'' @ tokenOut,
                currentBlock = bp_blockNumber bp,
                blockTimeEstimate = (if estimatedTransactionCount bp > 200 then 13 else 12),
                gasPercentiles = \<lparr>p25 = priceOr (estimatedPrices bp) 0 20,
                                  p50 = priceOr (estimatedPrices bp) 1 35,
                                  p75 = priceOr (estimatedPrices bp) 2 50,
                                  p90 = priceOr (estimatedPrices bp) 4 80\<rparr>,
                competingTxs = [],
                pendingTxCount = None,
                avgBlockTxCount = None,
                dataSource = ''blocknative'',
                md_confidence = 0.95,
                isRealTime = False,
                md_timestamp = now div 1000\<rparr>)"

definition getProvider :: "upstream \<Rightarrow> error + provider" where
  "getProvider up =
     (if ALCHEMY_API_KEY up then Inr (alchemy up)
      else if INFURA_PROJECT_ID up then Inr (infura up)
      else (case find (\<lambda>p. \<not> isl (getBlockNumber p)) (publicRPCs up) of
              Some p \<Rightarrow> Inr p
            | None \<Rightarrow> Inl NoWorkingProvider))"

definition fetchFromEthereumRPC :: "upstream \<Rightarrow> string \<Rightarrow> string \<Rightarrow> int \<Rightarrow> error + mempoolData option" where
  \<comment> \<open>\<^verbatim>\<open>getProvider()\<close> is awaited before the \<^verbatim>\<open>try\<close> block\<close>
  "fetchFromEthereumRPC up tokenIn tokenOut now =
     (case getProvider up of
        Inl e \<Rightarrow> Inl e
      | Inr p \<Rightarrow>
          Inr (case getBlockNumber p of
                 Inl e \<Rightarrow> None
               | Inr cb \<Rightarrow>
                   (case getBlock p cb of
                      Inl e \<Rightarrow> None
                    | Inr b \<Rightarrow>
                        Some \<lparr>md_tokenPair = tokenIn @ ''/'' @ tokenOut,
                              currentBlock = cb,
                              blockTimeEstimate = 12,
                              gasPercentiles = getGasPricePercentiles p cb,
                              competingTxs = fst (pendingAnalysis p),
                              pendingTxCount = Some (snd (pendingAnalysis p)),
                              avgBlockTxCount = None,
                              dataSource = ''ethereum-rpc'',
                              md_confidence = 0.85,
                              isRealTime = False,
                              md_timestamp = now div 1000\<rparr>)))"

definition getSimulatedMempoolData :: "string \<Rightarrow> string \<Rightarrow> int \<Rightarrow> mempoolData" where
  "getSimulatedMempoolData tokenIn tokenOut now =
     \<lparr>md_tokenPair = tokenIn @ ''/'' @ tokenOut,
      currentBlock = 0,
      blockTimeEstimate = 12,
      gasPercentiles = \<lparr>p25 = 20, p50 = 35, p75 = 50, p90 = 80\<rparr>,
      competingTxs = [],
      pendingTxCount = None,
      avgBlockTxCount = None,
      dataSource = ''simulated'',
      md_confidence = 0.50,
      isRealTime = False,
      md_timestamp = now div 1000\<rparr>"

definition blockTxCount :: "error + block option \<Rightarrow> nat" where
  \<comment> \<open>\<^verbatim>\<open>b?.transactions?.length || 0\<close>\<close>
  "blockTxCount r = (case r of Inr (Some b) \<Rightarrow> (case txCount b of Some n \<Rightarrow> n | None \<Rightarrow> 0) | _ \<Rightarrow> 0)"

definition analyzeRecentBlocks :: "upstream \<Rightarrow> string \<Rightarrow> string \<Rightarrow> int \<Rightarrow> error + mempoolData" where
  \<comment> \<open>\<^verbatim>\<open>getProvider()\<close> is awaited before the \<^verbatim>\<open>try\<close> block\<close>
  "analyzeRecentBlocks up tokenIn tokenOut now =
     (case getProvider up of
        Inl e \<Rightarrow> Inl e
      | Inr p \<Rightarrow>
          Inr (case getBlockNumber p of
                 Inl e \<Rightarrow> getSimulatedMempoolData tokenIn tokenOut now
               | Inr cb \<Rightarrow>
                   (let gp = getGasPricePercentiles p cb;
                        recentBlocks = map (getBlock p) [cb, cb - 1, cb - 2]
                    in if list_ex isl recentBlocks
                       then getSimulatedMempoolData tokenIn tokenOut now
                       else let avgTxCount = real (sum_list (map blockTxCount recentBlocks)) / 3
                            in \<lparr>md_tokenPair = tokenIn @ ''/'' @ tokenOut,
                                currentBlock = cb,
                                blockTimeEstimate = (if avgTxCount > 200 then 13 else 12),
                                gasPercentiles = gp,
                                competingTxs = [],
                                pendingTxCount = None,
                                avgBlockTxCount = Some (Math_round avgTxCount),
                                dataSource = ''block-analysis'',
                                md_confidence = 0.70,
                                isRealTime = False,
                                md_timestamp = now div 1000\<rparr>)))"

text \<open>
  \<^verbatim>\<open>getRealMempoolData\<close>. \<open>now\<close> is the clock (milliseconds) when the call starts and reads
  the cache and the subscriber; \<open>later\<close> is the clock once the network requests have
  answered, when the snapshot is stamped and stored. The result is the returned snapshot
  or the error the promise rejects with, the cache table afterwards, and the acquisition
  strategies that were invoked. The \<^verbatim>\<open>userTxDetails\<close> argument only sets the
  \<^verbatim>\<open>isSuspicious\<close> flag of the records inside \<open>pendingAnalysis\<close> and is left out.
\<close>

definition getRealMempoolData ::
  "upstream \<Rightarrow> pendingTxCache \<Rightarrow> cacheRow list \<Rightarrow> string \<Rightarrow> string \<Rightarrow> int \<Rightarrow> int
     \<Rightarrow> (error + mempoolData) \<times> cacheRow list \<times> strategy list" where
  "getRealMempoolData up ws db tokenIn tokenOut now later =
     (let tokenPair = tokenIn @ ''/'' @ tokenOut
      in case getCachedMempoolData db tokenPair now of
           Some cached \<Rightarrow> (Inr cached, db, [])
         | None \<Rightarrow>
             (let wsStatus = getWebSocketStatus ws now;
                  hasFreshCache = (ws_cachedTransactions wsStatus > 0 \<and> ws_cacheAge wsStatus < 10000);
                  isActivelyListening = (ws_lastUpdate wsStatus = 0 \<or> ws_cacheAge wsStatus < 60000);
                  useWs = (ws_isConnected wsStatus \<and> (hasFreshCache \<or> isActivelyListening));
                  t0 = (if useWs then [WebSocketCache] else [])
              in case (if useWs then fetchFromWebSocketCache ws tokenIn tokenOut now else None) of
                   Some mempoolData \<Rightarrow>
                     (Inr mempoolData, cacheMempoolData db tokenPair mempoolData now, t0)
                 | None \<Rightarrow>
                     (let t1 = t0 @ (if BLOCKNATIVE_API_KEY up then [Blocknative] else [])
                      in case (if BLOCKNATIVE_API_KEY up
                               then fetchFromBlocknative up tokenIn tokenOut later else None) of
                           Some mempoolData \<Rightarrow>
                             (Inr mempoolData, cacheMempoolData db tokenPair mempoolData later, t1)
                         | None \<Rightarrow>
                             (case fetchFromEthereumRPC up tokenIn tokenOut later of
                                Inl e \<Rightarrow> (Inl e, db, t1 @ [EthereumRPC])
                              | Inr (Some mempoolData) \<Rightarrow>
                                  (Inr mempoolData, cacheMempoolData db tokenPair mempoolData later,
                                   t1 @ [EthereumRPC])
                              | Inr None \<Rightarrow>
                                  (case analyzeRecentBlocks up tokenIn tokenOut later of
                                     Inl e \<Rightarrow> (Inl e, db, t1 @ [EthereumRPC, BlockAnalysis])
                                   | Inr mempoolData \<Rightarrow>
                                       (Inr mempoolData,
                                        cacheMempoolData db tokenPair mempoolData later,
                                        t1 @ [EthereumRPC, BlockAnalysis]))))))"

section \<open>The sandwich rule as the specification words it\<close>




section \<open>Derived notions and reference inputs\<close>

definition recentBaseFees :: "provider \<Rightarrow> int \<Rightarrow> real list" where
  \<comment> \<open>the sorted base-fee sample of \<open>getGasPricePercentiles\<close>, in gwei\<close>
  "recentBaseFees p cb =
     sort (List.map_filter baseFeeGwei (map (getBlock p) [cb, cb - 1, cb - 2, cb - 3, cb - 4]))"


definition competitor :: "string \<Rightarrow> real \<Rightarrow> string \<Rightarrow> pendingTx" where
  \<comment> \<open>a swap record with the given hash, gas price (gwei) and token pair\<close>
  "competitor h g pair =
     \<lparr>tx_hash = h, tx_from = ''0xfrom'', tx_to = ''0xto'', tx_value = 5, tx_gasPrice = g,
      tx_amount = None, tx_input = Some ''0x38ed1739'', tx_tokenPair = pair, tx_timestamp = 0,
      tx_isSuspicious = False\<rparr>"

definition snapshotOf :: "pendingTx list \<Rightarrow> mempoolData" where
  \<comment> \<open>a snapshot for the pair A/B with the default percentiles\<close>
  "snapshotOf txs =
     \<lparr>md_tokenPair = ''A/B'', currentBlock = 0, blockTimeEstimate = 12,
      gasPercentiles = \<lparr>p25 = 20, p50 = 35, p75 = 50, p90 = 80\<rparr>,
      competingTxs = txs, pendingTxCount = None, avgBlockTxCount = None,
      dataSource = ''simulated'', md_confidence = 0.5, isRealTime = False, md_timestamp = 0\<rparr>"

definition trade :: "real option \<Rightarrow> userTx" where
  \<comment> \<open>a trade of 1 A for B with the given gas price\<close>
  "trade g = \<lparr>token_in = ''A'', token_out = ''B'', amount_in = 1, gasPrice = g\<rparr>"





definition steadyProvider :: provider where
  \<comment> \<open>a node at height 100 whose recent blocks all have base fee 12.3456789 gwei\<close>
  "steadyProvider =
     \<lparr>getBlockNumber = Inr 100,
      getBlock = (\<lambda>n. Inr (Some \<lparr>baseFeePerGas = Some 12345678900, txCount = Some 150\<rparr>)),
      pendingAnalysis = ([], 0)\<rparr>"

definition failingProvider :: provider where
  "failingProvider = \<lparr>getBlockNumber = Inl RequestFailed, getBlock = (\<lambda>n. Inl RequestFailed),
                       pendingAnalysis = ([], 0)\<rparr>"

definition noKeysOffline :: upstream where
  \<comment> \<open>no API key configured and none of the three public endpoints answers\<close>
  "noKeysOffline =
     \<lparr>ALCHEMY_API_KEY = False, INFURA_PROJECT_ID = False, BLOCKNATIVE_API_KEY = False,
      alchemy = failingProvider, infura = failingProvider,
      publicRPCs = [failingProvider, failingProvider, failingProvider],
      blocknative = None\<rparr>"

definition infuraOnline :: upstream where
  \<comment> \<open>an Infura key is configured and the node answers\<close>
  "infuraOnline = noKeysOffline\<lparr>INFURA_PROJECT_ID := True, infura := steadyProvider\<rparr>"

definition fullBuffer :: pendingTxCache where
  \<comment> \<open>a connected subscriber holding 100 records, last updated at 1000 ms\<close>
  "fullBuffer = \<lparr>transactions = replicate 100 (competitor ''0xold'' 30 ''UNKNOWN/UNKNOWN''),
                 lastUpdate = 1000, isConnected = True, source = ''infura''\<rparr>"

definition rpcSnapshot :: mempoolData where
  \<comment> \<open>what \<open>fetchFromEthereumRPC\<close> builds from \<open>steadyProvider\<close> for USDC/ETH at second 1700000001\<close>
  "rpcSnapshot =
     \<lparr>md_tokenPair = ''USDC/ETH'', currentBlock = 100, blockTimeEstimate = 12,
      gasPercentiles = \<lparr>p25 = 13.58, p50 = 15.43, p75 = 18.52, p90 = 24.69\<rparr>,
      competingTxs = [], pendingTxCount = Some 0, avgBlockTxCount = None,
      dataSource = ''ethereum-rpc'', md_confidence = 0.85, isRealTime = False,
      md_timestamp = 1700000001\<rparr>"

section \<open>Risk aggregation\<close>


section \<open>Reconnect state machine\<close>

lemma run_append: "run s (evs @ evs') = run (run s evs) evs'"
  by (simp add: run_def)

lemma run_Cons: "run s (e # evs) = run (handle s e) evs"
  by (simp add: run_def)

lemma handle_attempts_le:
  "reconnectAttempts s \<le> MAX_RECONNECT_ATTEMPTS \<Longrightarrow> reconnectAttempts (handle s e) \<le> MAX_RECONNECT_ATTEMPTS"
  by (cases e) (auto simp: on_open_def on_error_def on_close_def Let_def)

lemma run_no_open:
  "Open \<notin> set evs \<Longrightarrow> reconnectAttempts s \<le> MAX_RECONNECT_ATTEMPTS \<Longrightarrow>
     reconnectAttempts (run s evs) = min (reconnectAttempts s + count_list evs Close) MAX_RECONNECT_ATTEMPTS
     \<and> reconnectsScheduled (run s evs) + reconnectAttempts s = reconnectsScheduled s + reconnectAttempts (run s evs)"
proof (induction evs arbitrary: s)
  case Nil
  then show ?case by (simp add: run_def)
next
  case (Cons e evs)
  have le: "reconnectAttempts (handle s e) \<le> MAX_RECONNECT_ATTEMPTS"
    using Cons.prems(2) by (rule handle_attempts_le)
  have no: "Open \<notin> set evs" using Cons.prems(1) by simp
  note IH = Cons.IH [OF no le]
  show ?case
  proof (cases e)
    case Open
    then show ?thesis using Cons.prems(1) by simp
  next
    case SocketError
    then show ?thesis using IH by (simp add: run_Cons on_error_def)
  next
    case Close
    show ?thesis
    proof (cases "reconnectAttempts s < MAX_RECONNECT_ATTEMPTS")
      case True
      then show ?thesis using IH Close by (simp add: run_Cons on_close_def Let_def)
    next
      case False
      then show ?thesis using IH Close Cons.prems(2) by (simp add: run_Cons on_close_def Let_def)
    qed
  qed
qed

lemma run_disconnected:
  "Open \<notin> set evs \<Longrightarrow> evs \<noteq> [] \<Longrightarrow> \<not> isConnected (cache (run s evs))"
proof (induction evs arbitrary: s rule: rev_induct)
  case Nil
  then show ?case by simp
next
  case (snoc e evs)
  then show ?case
    by (cases e) (auto simp: run_append run_def on_error_def on_close_def Let_def)
qed

text \<open>
  Claim C9. A socket close increments the retry counter and sets a reconnect timer only
  while the counter is below the cap of 5. Hence, counted from a state with the counter
  at zero (the start of the process, or any successful connection), a sequence of
  failures (error and close events without an intervening open) sets \<open>min n 5\<close> timers
  for \<open>n\<close> closes: a sixth reconnect is never attempted, and the status query reports
  \<open>connected = false\<close>. Every successful connection resets the counter to zero.
\<close>

theorem reconnect_bounded:
  "(reconnectAttempts s < MAX_RECONNECT_ATTEMPTS \<longrightarrow>
      reconnectAttempts (on_close s) = reconnectAttempts s + 1 \<and>
      reconnectsScheduled (on_close s) = reconnectsScheduled s + 1)
   \<and> (\<not> reconnectAttempts s < MAX_RECONNECT_ATTEMPTS \<longrightarrow>
      reconnectAttempts (on_close s) = reconnectAttempts s \<and>
      reconnectsScheduled (on_close s) = reconnectsScheduled s)
   \<and> MAX_RECONNECT_ATTEMPTS = 5
   \<and> reconnectAttempts (on_open s) = 0
   \<and> (Open \<notin> set evs \<and> reconnectAttempts s = 0 \<longrightarrow>
        reconnectsScheduled (run s evs)
          = reconnectsScheduled s + min (count_list evs Close) 5)
   \<and> (Open \<notin> set evs \<and> evs \<noteq> [] \<longrightarrow>
        \<not> ws_isConnected (getWebSocketStatus (cache (run s evs)) now))"
proof -
  have a: "Open \<notin> set evs \<and> reconnectAttempts s = 0 \<Longrightarrow>
        reconnectsScheduled (run s evs)
          = reconnectsScheduled s + min (count_list evs Close) 5"
    using run_no_open [of evs s]
    by (simp add: MAX_RECONNECT_ATTEMPTS_def)
  have b: "Open \<notin> set evs \<and> evs \<noteq> [] \<Longrightarrow>
        \<not> ws_isConnected (getWebSocketStatus (cache (run s evs)) now)"
    using run_disconnected [of evs s] by (simp add: getWebSocketStatus_def)
  show ?thesis using a b
    by (auto simp: on_close_def on_open_def Let_def MAX_RECONNECT_ATTEMPTS_def)
qed

text \<open>Seven closes after a successful connection: five timers, not connected.\<close>

theorem reconnect_bounded_witness:
  "Open \<notin> set [Close, SocketError, Close, Close, Close, Close, Close, Close]
   \<and> reconnectAttempts (on_open initialSubscriber) = 0
   \<and> reconnectsScheduled
        (run (on_open initialSubscriber) [Close, SocketError, Close, Close, Close, Close, Close, Close]) = 5
   \<and> \<not> ws_isConnected (getWebSocketStatus
          (cache (run (on_open initialSubscriber)
                    [Close, SocketError, Close, Close, Close, Close, Close, Close])) 0)
   \<and> reconnectAttempts initialSubscriber < MAX_RECONNECT_ATTEMPTS
   \<and> reconnectAttempts (on_close initialSubscriber) = 1
   \<and> \<not> reconnectAttempts (initialSubscriber\<lparr>reconnectAttempts := 5\<rparr>) < MAX_RECONNECT_ATTEMPTS
   \<and> reconnectsScheduled (on_close (initialSubscriber\<lparr>reconnectAttempts := 5\<rparr>)) = 0"
proof -
  let ?evs = "[Close, SocketError, Close, Close, Close, Close, Close, Close]"
  let ?s = "on_open initialSubscriber"
  have no: "Open \<notin> set ?evs" by simp
  have ne: "?evs \<noteq> []" by simp
  have cnt: "count_list ?evs Close = 7" by simp
  have s0: "reconnectsScheduled initialSubscriber = 0" "reconnectAttempts initialSubscriber = 0"
    by (simp_all add: initialSubscriber_def)
  have s1: "reconnectsScheduled ?s = 0" "reconnectAttempts ?s = 0"
    by (simp_all add: on_open_def initialSubscriber_def)
  have lt: "reconnectAttempts initialSubscriber < MAX_RECONNECT_ATTEMPTS"
    by (simp add: s0 MAX_RECONNECT_ATTEMPTS_def)
  have ge: "\<not> reconnectAttempts (initialSubscriber\<lparr>reconnectAttempts := 5\<rparr>) < MAX_RECONNECT_ATTEMPTS"
    by (simp add: MAX_RECONNECT_ATTEMPTS_def)
  have "reconnectsScheduled (run ?s ?evs) = reconnectsScheduled ?s + min (count_list ?evs Close) 5"
    using reconnect_bounded [of ?s ?evs 0] no s1(2) by blast
  then have 1: "reconnectsScheduled (run ?s ?evs) = 5"
    unfolding cnt s1 by simp
  have 2: "\<not> ws_isConnected (getWebSocketStatus (cache (run ?s ?evs)) 0)"
    using reconnect_bounded [of ?s ?evs 0] no ne by blast
  have "reconnectAttempts (on_close initialSubscriber) = reconnectAttempts initialSubscriber + 1"
    using reconnect_bounded [of initialSubscriber "[]" 0] lt by blast
  then have 3: "reconnectAttempts (on_close initialSubscriber) = 1"
    by (simp add: s0)
  have "reconnectsScheduled (on_close (initialSubscriber\<lparr>reconnectAttempts := 5\<rparr>))
          = reconnectsScheduled (initialSubscriber\<lparr>reconnectAttempts := 5\<rparr>)"
    using reconnect_bounded [of "initialSubscriber\<lparr>reconnectAttempts := 5\<rparr>" "[]" 0] ge by blast
  then have 4: "reconnectsScheduled (on_close (initialSubscriber\<lparr>reconnectAttempts := 5\<rparr>)) = 0"
    by (simp add: s0)
  show ?thesis using no s1(2) 1 2 lt 3 ge 4 by blast
qed

section \<open>Pattern detectors\<close>







lemma sum_above:
  "xs \<noteq> [] \<Longrightarrow> \<forall>x \<in> set xs. u < f x \<Longrightarrow> u * real (length xs) < sum_list (map f xs)"
proof (induction xs)
  case Nil
  then show ?case by simp
next
  case (Cons a xs)
  show ?case
  proof (cases "xs = []")
    case True
    then show ?thesis using Cons.prems by simp
  next
    case False
    then have "u * real (length xs) < sum_list (map f xs)" using Cons by simp
    moreover have "u < f a" using Cons.prems by simp
    ultimately show ?thesis by (simp add: algebra_simps)
  qed
qed

lemma sum_below:
  "xs \<noteq> [] \<Longrightarrow> \<forall>x \<in> set xs. f x < u \<Longrightarrow> sum_list (map f xs) < u * real (length xs)"
proof (induction xs)
  case Nil
  then show ?case by simp
next
  case (Cons a xs)
  show ?case
  proof (cases "xs = []")
    case True
    then show ?thesis using Cons.prems by simp
  next
    case False
    then have "sum_list (map f xs) < u * real (length xs)" using Cons by simp
    moreover have "f a < u" using Cons.prems by simp
    ultimately show ?thesis by (simp add: algebra_simps)
  qed
qed

lemma avgGas_above: "xs \<noteq> [] \<Longrightarrow> \<forall>tx \<in> set xs. u < tx_gasPrice tx \<Longrightarrow> u < avgGas xs"
  using sum_above [of xs u tx_gasPrice] by (simp add: avgGas_def pos_less_divide_eq)

lemma avgGas_below: "xs \<noteq> [] \<Longrightarrow> \<forall>tx \<in> set xs. tx_gasPrice tx < u \<Longrightarrow> avgGas xs < u"
  using sum_below [of xs tx_gasPrice u] by (simp add: avgGas_def pos_divide_less_eq)

text \<open>
  For a positive caller price every front-runner is above and every back-runner below
  that price, so the ordering bonus always applies and a detected sandwich has
  confidence exactly 1.
\<close>

lemma sandwich_confidence_positive_price:
  assumes u: "0 < userGasPrice md t" and d: "detected (detectSandwichPattern md t)"
  shows "confidence (detectSandwichPattern md t) = 1"
proof -
  let ?u = "userGasPrice md t"
  let ?fr = "filter (\<lambda>tx. tx_gasPrice tx > ?u * 1.05 \<and> isSameOrRelatedPair (tx_tokenPair tx) (userPair t))
                    (competingTxs md)"
  let ?br = "filter (\<lambda>tx. tx_gasPrice tx < ?u * 0.95 \<and> isSameOrRelatedPair (tx_tokenPair tx) (userPair t)
                          \<and> isOppositeDirection tx t) (competingTxs md)"
  have c: "competingTxs md \<noteq> []"
    using d by (auto simp: detectSandwichPattern_def)
  then have "detected (detectSandwichPattern md t) = (?fr \<noteq> [] \<and> ?br \<noteq> [])"
    by (simp add: detectSandwichPattern_def Let_def)
  then have ne: "?fr \<noteq> []" "?br \<noteq> []" using d by blast+
  have "\<forall>tx \<in> set ?fr. ?u < tx_gasPrice tx" using u by auto
  then have a: "?u < avgGas ?fr" using ne(1) by (intro avgGas_above)
  have "\<forall>tx \<in> set ?br. tx_gasPrice tx < ?u" using u by auto
  then have b: "avgGas ?br < ?u" using ne(2) by (intro avgGas_below)
  have ord: "checkGasOrdering ?fr ?br ?u" using ne a b by (simp add: checkGasOrdering_def)
  have "0 < length ?fr" "0 < length ?br" using ne by blast+
  then have n: "1 \<le> real (length ?fr)" "1 \<le> real (length ?br)" by linarith+
  have "confidence (detectSandwichPattern md t)
          = min (0.6 + real (length ?fr) * 0.1 + real (length ?br) * 0.1 + 0.2) 1"
    using c ne ord by (simp add: detectSandwichPattern_def Let_def)
  then show ?thesis using n by simp
qed

text \<open>
  Claim C6. The front-run detector assumes the caller's own gas price, or the snapshot's
  p50 when none is given. It reports detected exactly when some competing transaction on
  the same or a related pair has a gas price above that, and then its confidence is
  \<open>min (0.5 + 0.1 \<times> count + 0.3 \<times> largest relative gap) 1\<close> over those competitors. For an
  assumed price of zero the relative gap is infinite and the confidence is 1.
\<close>

theorem frontrun_detection:
  "userGasPrice md userTx = (case gasPrice userTx of Some g \<Rightarrow> g | None \<Rightarrow> p50 (gasPercentiles md))
   \<and> competitors (detectFrontrunPattern md userTx)
       = filter (\<lambda>tx. tx_gasPrice tx > userGasPrice md userTx \<and>
                       isSameOrRelatedPair (tx_tokenPair tx) (userPair userTx)) (competingTxs md)
   \<and> competitorCount (detectFrontrunPattern md userTx)
       = length (competitors (detectFrontrunPattern md userTx))
   \<and> (detected (detectFrontrunPattern md userTx) \<longleftrightarrow>
        (\<exists>tx \<in> set (competingTxs md).
            tx_gasPrice tx > userGasPrice md userTx \<and>
            isSameOrRelatedPair (tx_tokenPair tx) (userPair userTx)))
   \<and> (detected (detectFrontrunPattern md userTx) \<and> userGasPrice md userTx \<noteq> 0 \<longrightarrow>
        confidence (detectFrontrunPattern md userTx)
          = min (0.5 + 0.1 * real (competitorCount (detectFrontrunPattern md userTx))
                 + 0.3 * Max ((\<lambda>tx. (tx_gasPrice tx - userGasPrice md userTx) / userGasPrice md userTx)
                              ` set (competitors (detectFrontrunPattern md userTx)))) 1)
   \<and> (detected (detectFrontrunPattern md userTx) \<and> userGasPrice md userTx = 0 \<longrightarrow>
        confidence (detectFrontrunPattern md userTx) = 1)
   \<and> (\<not> detected (detectFrontrunPattern md userTx) \<longrightarrow>
        confidence (detectFrontrunPattern md userTx) = 0)"
  by (auto simp: detectFrontrunPattern_def maxGasDiff_def Let_def filter_empty_conv userGasPrice_def)

text \<open>Scenario C of the specification, a zero caller price, and a quiet snapshot.\<close>

theorem frontrun_detection_witness:
  "detected (detectFrontrunPattern (snapshotOf [competitor ''0x1'' 80 ''A/B'']) (trade (Some 50)))
   \<and> userGasPrice (snapshotOf [competitor ''0x1'' 80 ''A/B'']) (trade (Some 50)) \<noteq> 0
   \<and> confidence (detectFrontrunPattern (snapshotOf [competitor ''0x1'' 80 ''A/B'']) (trade (Some 50))) = 0.78
   \<and> detected (detectFrontrunPattern (snapshotOf [competitor ''0x1'' 80 ''A/B'']) (trade (Some 0)))
   \<and> userGasPrice (snapshotOf [competitor ''0x1'' 80 ''A/B'']) (trade (Some 0)) = 0
   \<and> confidence (detectFrontrunPattern (snapshotOf [competitor ''0x1'' 80 ''A/B'']) (trade (Some 0))) = 1
   \<and> \<not> detected (detectFrontrunPattern (snapshotOf [competitor ''0x1'' 30 ''A/B'']) (trade None))
   \<and> confidence (detectFrontrunPattern (snapshotOf [competitor ''0x1'' 30 ''A/B'']) (trade None)) = 0"
proof -
  let ?md = "snapshotOf [competitor ''0x1'' 80 ''A/B'']"
  let ?md' = "snapshotOf [competitor ''0x1'' 30 ''A/B'']"
  have rel: "isSameOrRelatedPair ''A/B'' (userPair (trade g))" for g
    by (simp add: isSameOrRelatedPair_def userPair_def trade_def)
  have u50: "userGasPrice ?md (trade (Some 50)) = 50" and u0: "userGasPrice ?md (trade (Some 0)) = 0"
    and u35: "userGasPrice ?md' (trade None) = 35"
    by (simp_all add: userGasPrice_def trade_def snapshotOf_def)
  have txs: "competingTxs ?md = [competitor ''0x1'' 80 ''A/B'']"
    "competingTxs ?md' = [competitor ''0x1'' 30 ''A/B'']"
    by (simp_all add: snapshotOf_def)
  have g: "tx_gasPrice (competitor h x p) = x" "tx_tokenPair (competitor h x p) = p" for h x p
    by (simp_all add: competitor_def)
  note F = frontrun_detection [of ?md "trade (Some 50)"]
  have d1: "detected (detectFrontrunPattern ?md (trade (Some 50)))"
    using F by (simp add: u50 txs g rel)
  have cs1: "competitors (detectFrontrunPattern ?md (trade (Some 50))) = [competitor ''0x1'' 80 ''A/B'']"
    using F by (simp add: u50 txs g rel)
  have c1: "confidence (detectFrontrunPattern ?md (trade (Some 50))) = 0.78"
    using F d1 cs1 by (simp add: u50 g)
  note G = frontrun_detection [of ?md "trade (Some 0)"]
  have d2: "detected (detectFrontrunPattern ?md (trade (Some 0)))"
    using G by (simp add: u0 txs g rel)
  have c2: "confidence (detectFrontrunPattern ?md (trade (Some 0))) = 1"
    using G d2 u0 by blast
  note H = frontrun_detection [of ?md' "trade None"]
  have d3: "\<not> detected (detectFrontrunPattern ?md' (trade None))"
    using H by (simp add: u35 txs g rel)
  have c3: "confidence (detectFrontrunPattern ?md' (trade None)) = 0"
    using H d3 by blast
  show ?thesis using d1 c1 d2 c2 d3 c3 u50 u0 by simp
qed

section \<open>Pending-transaction buffer\<close>

lemma fetchFromWebSocketCache_txs:
  "fetchFromWebSocketCache c tokenIn tokenOut now = Some md \<Longrightarrow>
     competingTxs md = take 20 (transactions c)"
  by (auto simp: fetchFromWebSocketCache_def getCachedPendingTransactions_def Let_def
           split: if_splits)

lemma getRealMempoolData_ws_trace:
  assumes "getRealMempoolData up c db tokenIn tokenOut now later = (Inr md, db', [WebSocketCache])"
  shows "fetchFromWebSocketCache c tokenIn tokenOut now = Some md"
  using assms
  by (auto simp: getRealMempoolData_def Let_def split: option.splits if_splits sum.splits)

text \<open>
  Claim C10. The pending-transaction buffer keeps the newest 100 records, newest first;
  a read returns the first 20 of them (or none when the buffer is stale). Hence every
  snapshot built from the buffer, and every snapshot \<open>getRealMempoolData\<close> returns from
  the WebSocket strategy, has at most 20 competing transactions.
\<close>

theorem websocket_snapshot_at_most_20:
  "transactions (addToPendingCache c tx now) = take 100 (tx # transactions c)
   \<and> length (transactions (addToPendingCache c tx now)) \<le> 100
   \<and> wd_transactions (getCachedPendingTransactions c now)
       = (if now - lastUpdate c > 5000 then [] else take 20 (transactions c))
   \<and> length (wd_transactions (getCachedPendingTransactions c now)) \<le> 20
   \<and> (fetchFromWebSocketCache c tokenIn tokenOut now = Some md \<longrightarrow>
        competingTxs md = take 20 (transactions c) \<and> length (competingTxs md) \<le> 20)
   \<and> (getRealMempoolData up c db tokenIn tokenOut now later = (Inr md', db', [WebSocketCache]) \<longrightarrow>
        competingTxs md' = take 20 (transactions c) \<and> length (competingTxs md') \<le> 20)"
proof -
  have a: "transactions (addToPendingCache c tx now) = take 100 (tx # transactions c)"
    by (simp add: addToPendingCache_def MAX_CACHED_TXS_def Let_def)
  have b: "wd_transactions (getCachedPendingTransactions c now)
       = (if now - lastUpdate c > 5000 then [] else take 20 (transactions c))"
    by (simp add: getCachedPendingTransactions_def CACHE_TTL_def Let_def)
  show ?thesis
    using fetchFromWebSocketCache_txs [of c tokenIn tokenOut now md]
      getRealMempoolData_ws_trace [of up c db tokenIn tokenOut now later md' db']
      fetchFromWebSocketCache_txs [of c tokenIn tokenOut now md']
    by (simp add: a b)
qed

text \<open>A full buffer of 100 records receives one more; a read at 2000 ms returns 20.\<close>

theorem websocket_snapshot_at_most_20_witness:
  "length (transactions (addToPendingCache fullBuffer (competitor ''0xnew'' 40 ''UNKNOWN/UNKNOWN'') 2000)) = 100
   \<and> hd (transactions (addToPendingCache fullBuffer (competitor ''0xnew'' 40 ''UNKNOWN/UNKNOWN'') 2000))
       = competitor ''0xnew'' 40 ''UNKNOWN/UNKNOWN''
   \<and> fetchFromWebSocketCache fullBuffer ''A'' ''B'' 2000 \<noteq> None
   \<and> length (competingTxs (the (fetchFromWebSocketCache fullBuffer ''A'' ''B'' 2000))) = 20
   \<and> snd (snd (getRealMempoolData noKeysOffline fullBuffer [] ''A'' ''B'' 2000 2500)) = [WebSocketCache]
   \<and> length (competingTxs (projr (fst (getRealMempoolData noKeysOffline fullBuffer [] ''A'' ''B'' 2000 2500)))) = 20"
proof -
  let ?new = "competitor ''0xnew'' 40 ''UNKNOWN/UNKNOWN''"
  have len: "length (transactions fullBuffer) = 100" by (simp add: fullBuffer_def)
  have t1: "transactions (addToPendingCache fullBuffer ?new 2000) = take 100 (?new # transactions fullBuffer)"
    using websocket_snapshot_at_most_20 [of fullBuffer ?new 2000] by blast
  obtain md where md: "fetchFromWebSocketCache fullBuffer ''A'' ''B'' 2000 = Some md"
    by (simp add: fetchFromWebSocketCache_def getCachedPendingTransactions_def fullBuffer_def
          CACHE_TTL_def Let_def)
  have t2: "competingTxs md = take 20 (transactions fullBuffer)"
    using websocket_snapshot_at_most_20 [of fullBuffer ?new 2000 "''A''" "''B''" md] md by blast
  have miss: "getCachedMempoolData [] (''A'' @ ''/'' @ ''B'') 2000 = None"
    by (simp add: getCachedMempoolData_def)
  have call: "getRealMempoolData noKeysOffline fullBuffer [] ''A'' ''B'' 2000 2500
                = (Inr md, cacheMempoolData [] ''A/B'' md 2000, [WebSocketCache])"
    using md miss
    by (simp add: getRealMempoolData_def getWebSocketStatus_def fullBuffer_def Let_def)
  have t3: "competingTxs md = take 20 (transactions fullBuffer) \<and> length (competingTxs md) \<le> 20"
    using websocket_snapshot_at_most_20 [where c = fullBuffer and now = 2000 and tokenIn = "''A''"
            and tokenOut = "''B''" and up = noKeysOffline and db = "[]" and later = 2500 and md' = md
            and db' = "cacheMempoolData [] ''A/B'' md 2000"] call by blast
  show ?thesis using t1 t2 t3 md call len by simp
qed

section \<open>Gas percentiles\<close>











lemma getGasPricePercentiles_cases:
  "getGasPricePercentiles p cb =
     (if list_ex isl (map (getBlock p) [cb, cb - 1, cb - 2, cb - 3, cb - 4]) \<or> recentBaseFees p cb = []
      then defaultGasPercentiles
      else \<lparr>p25 = toFixed2 (recentBaseFees p cb ! percentileIndex (length (recentBaseFees p cb)) 0.25 * 1.1),
            p50 = toFixed2 (recentBaseFees p cb ! percentileIndex (length (recentBaseFees p cb)) 0.50 * 1.25),
            p75 = toFixed2 (recentBaseFees p cb ! percentileIndex (length (recentBaseFees p cb)) 0.75 * 1.5),
            p90 = toFixed2 (recentBaseFees p cb ! percentileIndex (length (recentBaseFees p cb)) 0.90 * 2)\<rparr>)"
proof -
  have eq: "(length xs = 0) = (sort xs = [])" for xs :: "real list"
    by (cases xs) simp_all
  have merge: "(if A then D else if B then D else R) = (if A \<or> B then D else R)"
    for A B and D R :: gasPercentiles
    by simp
  show ?thesis
    unfolding getGasPricePercentiles_def recentBaseFees_def Let_def eq merge length_sort ..
qed











section \<open>Attack classification\<close>



lemma maxGasDiff_pos:
  assumes "cs \<noteq> []" "0 < u" "\<forall>tx \<in> set cs. tx_gasPrice tx > u"
  shows "0 < maxGasDiff cs u"
proof -
  let ?S = "(\<lambda>tx. (tx_gasPrice tx - u) / u) ` set cs"
  have "finite ?S" "?S \<noteq> {}" using assms(1) by simp_all
  then have "Max ?S \<in> ?S" by (rule Max_in)
  then obtain tx where "tx \<in> set cs" "Max ?S = (tx_gasPrice tx - u) / u" by auto
  then show ?thesis using assms(2,3) by (simp add: maxGasDiff_def)
qed

lemma frontrun_detected_passes:
  assumes "0 \<le> userGasPrice md t" "detected (detectFrontrunPattern md t)"
  shows "confidence (detectFrontrunPattern md t) > 0.6"
proof -
  let ?u = "userGasPrice md t"
  let ?cs = "filter (\<lambda>tx. tx_gasPrice tx > ?u \<and> isSameOrRelatedPair (tx_tokenPair tx) (userPair t))
                    (competingTxs md)"
  have ne: "competingTxs md \<noteq> []" and cs: "?cs \<noteq> []"
    using assms(2) by (auto simp: detectFrontrunPattern_def Let_def split: if_splits)
  have conf: "confidence (detectFrontrunPattern md t)
                = (if ?u = 0 then 1 else min (0.5 + real (length ?cs) * 0.1 + maxGasDiff ?cs ?u * 0.3) 1)"
    using ne cs by (simp add: detectFrontrunPattern_def Let_def)
  show ?thesis
  proof (cases "?u = 0")
    case True
    then show ?thesis by (simp add: conf)
  next
    case False
    then have u: "0 < ?u" using assms(1) by simp
    have "0 < maxGasDiff ?cs ?u" using cs u by (intro maxGasDiff_pos) simp_all
    moreover have "1 \<le> real (length ?cs)" using cs by (cases ?cs) simp_all
    ultimately have "0.6 < 0.5 + real (length ?cs) * 0.1 + maxGasDiff ?cs ?u * 0.3" by simp
    then show ?thesis using False by (simp add: conf)
  qed
qed

lemma legacy_gas_prices [simp]:
  "calculateUserGasPrice t md = userGasPrice md t" "getUserGasPrice t md = userGasPrice md t"
  by (simp_all add: calculateUserGasPrice_def getUserGasPrice_def userGasPrice_def)



lemma detectorView_gas [simp]: "userGasPrice md (detectorView input) = p50 (gasPercentiles md)"
  by (simp add: userGasPrice_def detectorView_def)






section \<open>Range of the risk score\<close>

lemma frontrun_quiet_confidence:
  "\<not> detected (detectFrontrunPattern md t) \<Longrightarrow> confidence (detectFrontrunPattern md t) = 0"
  by (auto simp: detectFrontrunPattern_def Let_def split: if_splits)

lemma confidences_nonneg:
  "0 \<le> confidence (detectSandwichPattern md t)"
  "0 \<le> confidence (detectBackrunPattern md t)"
  "0 \<le> confidence (detectCopycatPattern md t)"
  "0 \<le> confidence (detectJITLiquidityPattern md t)"
  "0 \<le> userGasPrice md t \<Longrightarrow> 0 \<le> confidence (detectFrontrunPattern md t)"
proof -
  show "0 \<le> confidence (detectSandwichPattern md t)"
    by (simp add: detectSandwichPattern_def Let_def)
  show "0 \<le> confidence (detectBackrunPattern md t)"
    by (simp add: detectBackrunPattern_def Let_def)
  show "0 \<le> confidence (detectCopycatPattern md t)"
    by (simp add: detectCopycatPattern_def Let_def)
  show "0 \<le> confidence (detectJITLiquidityPattern md t)"
    by (simp add: detectJITLiquidityPattern_def Let_def)
  show "0 \<le> confidence (detectFrontrunPattern md t)" if "0 \<le> userGasPrice md t"
    using frontrun_detected_passes [OF that] frontrun_quiet_confidence [of md t]
    by (cases "detected (detectFrontrunPattern md t)") simp_all
qed

lemma Math_round_nonneg: "0 \<le> x \<Longrightarrow> 0 \<le> Math_round x"
  by (simp add: Math_round_def)

lemma aggregate_nonneg:
  assumes "0 \<le> userGasPrice md t"
  shows "0 \<le> snd (analyzeMEVPatterns md t)"
proof -
  note c = confidences_nonneg(1-4) [of md t] confidences_nonneg(5) [OF assms]
  have step: "(if d \<and> c \<noteq> 0 then x + c * w * 100 else x) = x + (if d then c * w * 100 else 0)"
    for d and c w x :: real
    by simp
  have "0 \<le> foldl (\<lambda>totalRisk (d, c, w). if d \<and> c \<noteq> 0 then totalRisk + c * w * 100 else totalRisk)
                0 (entries (analyzePatterns md t))"
    unfolding entries_def analyzePatterns_def foldl.simps prod.case step patterns.simps
    using c by (intro add_nonneg_nonneg) simp_all
  then show ?thesis
    by (simp add: analyzeMEVPatterns_def calculateAggregateRisk_def Let_def Math_round_nonneg)
qed

lemma legacy_scores_nonneg:
  "0 \<le> score (detectSandwich t md)" "0 \<le> score (detectFrontRun t md)" "0 \<le> performHistoricalAnalysis h"
  "0 \<le> congestionScore md"
proof -
  show "0 \<le> score (detectSandwich t md)" by (simp add: detectSandwich_def Let_def)
  show "0 \<le> score (detectFrontRun t md)" by (simp add: detectFrontRun_def Let_def)
  show "0 \<le> performHistoricalAnalysis h"
    by (simp add: performHistoricalAnalysis_def analyzeHistoricalPatterns_def checkKnownAttackers_def
          analyzeTimingPatterns_def split: option.splits bool.splits)
  show "0 \<le> congestionScore md" by (simp add: congestionScore_def split: option.splits)
qed

lemma risk_scores_bounded:
  "snd (analyzeMEVPatterns md t) \<le> 100"
  "scanRiskScore md input priceImpact h \<le> 100"
  "0 \<le> userGasPrice md t \<Longrightarrow> 0 \<le> snd (analyzeMEVPatterns md t)"
  "0 \<le> p50 (gasPercentiles md) \<Longrightarrow> 0 \<le> scanRiskScore md input priceImpact h"
proof -
  show "snd (analyzeMEVPatterns md t) \<le> 100"
    by (simp add: analyzeMEVPatterns_def calculateAggregateRisk_def Let_def)
  show "scanRiskScore md input priceImpact h \<le> 100"
    by (simp add: scanRiskScore_def Let_def)
  show "0 \<le> snd (analyzeMEVPatterns md t)" if "0 \<le> userGasPrice md t"
    using that by (rule aggregate_nonneg)
  show "0 \<le> scanRiskScore md input priceImpact h" if u: "0 \<le> p50 (gasPercentiles md)"
  proof -
    let ?t = "detectorView input"
    have a: "0 \<le> real_of_int (snd (analyzeMEVPatterns md ?t))"
      using aggregate_nonneg [of md ?t] u by simp
    note l = legacy_scores_nonneg(1,2) [of ?t md] legacy_scores_nonneg(3) [of h]
      legacy_scores_nonneg(4) [of md]
    have "0 \<le> real_of_int (snd (analyzeMEVPatterns md ?t)) * 0.6
              + (real_of_int (score (detectSandwich ?t md)) * 0.45
                 + real_of_int (score (detectFrontRun ?t md)) * 0.35
                 + real_of_int (performHistoricalAnalysis h) * 0.20) * 0.4
              + (if priceImpact > 2 then 10 else 0)
              + real_of_int (congestionScore md) * 0.1"
      using a l by (intro add_nonneg_nonneg mult_nonneg_nonneg) simp_all
    then show ?thesis
      unfolding scanRiskScore_def Let_def by (simp add: Math_round_nonneg)
  qed
qed


section \<open>Aggregator fallback chain\<close>

lemma first_call_cases:
  assumes "getRealMempoolData up ws db tokenIn tokenOut now later = (Inr snap, db', tr)"
  shows "(getCachedMempoolData db (tokenIn @ ''/'' @ tokenOut) now = Some snap \<and> db' = db \<and> tr = [])
       \<or> (getCachedMempoolData db (tokenIn @ ''/'' @ tokenOut) now = None \<and> tr \<noteq> [] \<and>
          (db' = cacheMempoolData db (tokenIn @ ''/'' @ tokenOut) snap now
           \<or> db' = cacheMempoolData db (tokenIn @ ''/'' @ tokenOut) snap later))"
proof (cases "getCachedMempoolData db (tokenIn @ ''/'' @ tokenOut) now")
  case (Some cached)
  then show ?thesis using assms by (simp add: getRealMempoolData_def)
next
  case None
  then show ?thesis using assms
    by (auto simp: getRealMempoolData_def Let_def split: option.splits sum.splits if_splits)
qed

text \<open>
  Claim C1 states that \<open>getRealMempoolData\<close> never rejects and that, when every real
  source fails, it returns the simulated baseline with confidence 0.50 and no competing
  transactions. \<open>fetchFromEthereumRPC\<close> and \<open>analyzeRecentBlocks\<close> await \<open>getProvider\<close>
  before their \<open>try\<close> block: with no API key configured and no public endpoint answering,
  the call rejects with the provider error and no snapshot is returned or cached.
\<close>

theorem unreachable_rpc_rejects:
  "getRealMempoolData noKeysOffline initialPendingTxCache [] ''USDC'' ''ETH'' 1700000000000 1700000002000
     = (Inl NoWorkingProvider, [], [EthereumRPC])"
  by (simp add: getRealMempoolData_def getCachedMempoolData_def getWebSocketStatus_def
        initialPendingTxCache_def noKeysOffline_def failingProvider_def fetchFromEthereumRPC_def
        getProvider_def Let_def)

text \<open>
  When a provider can be constructed the call does return a snapshot, and when every
  request to it fails the snapshot is the simulated baseline.
\<close>

lemma provider_available_returns:
  assumes "getProvider up = Inr p"
  shows "\<exists>md db' tr. getRealMempoolData up ws db tokenIn tokenOut now later = (Inr md, db', tr)"
  using assms
  by (simp add: getRealMempoolData_def fetchFromEthereumRPC_def analyzeRecentBlocks_def Let_def
           split: option.splits sum.splits)

lemma all_sources_fail_baseline:
  assumes "getProvider up = Inr p" "getBlockNumber p = Inl e"
    and "\<not> isConnected ws" "\<not> BLOCKNATIVE_API_KEY up"
    and "getCachedMempoolData db (tokenIn @ ''/'' @ tokenOut) now = None"
  shows "fst (getRealMempoolData up ws db tokenIn tokenOut now later)
           = Inr (getSimulatedMempoolData tokenIn tokenOut later)"
  using assms
  by (simp add: getRealMempoolData_def fetchFromEthereumRPC_def analyzeRecentBlocks_def
        getWebSocketStatus_def Let_def)

section \<open>Freshness cache\<close>

lemma newest_None_iff: "newest rs = None \<longleftrightarrow> rs = []"
  by (induction rs) (auto split: option.splits)

lemma newest_max: "newest rs = Some r \<Longrightarrow> r \<in> set rs \<and> (\<forall>x \<in> set rs. cached_at x \<le> cached_at r)"
proof (induction rs arbitrary: r)
  case Nil
  then show ?case by simp
next
  case (Cons a rs)
  show ?case
  proof (cases "newest rs")
    case None
    then have "rs = []" by (simp add: newest_None_iff)
    then show ?thesis using Cons.prems by simp
  next
    case (Some r')
    note IH = Cons.IH [OF Some]
    show ?thesis
    proof (cases "cached_at r' \<ge> cached_at a")
      case True
      then have "r = r'" using Cons.prems Some by simp
      then show ?thesis using IH True by auto
    next
      case False
      then have "r = a" using Cons.prems Some by simp
      then show ?thesis using IH False by fastforce
    qed
  qed
qed

lemma newest_filter_stable:
  assumes "newest (filter P rs) = Some r"
    and "\<And>x. Q x \<Longrightarrow> P x"
    and "\<And>x. x \<in> set rs \<Longrightarrow> P x \<Longrightarrow> cached_at r \<le> cached_at x \<Longrightarrow> Q x"
  shows "newest (filter Q rs) = Some r"
  using assms(1,3)
proof (induction rs arbitrary: r)
  case Nil
  then show ?case by simp
next
  case (Cons a rs)
  note QP = assms(2)
  have sub: "set (filter Q rs) \<subseteq> set (filter P rs)" using QP by auto
  show ?case
  proof (cases "P a")
    case False
    then have nq: "\<not> Q a" using QP by blast
    have "newest (filter P rs) = Some r" using Cons.prems(1) False by simp
    then have "newest (filter Q rs) = Some r"
    proof (rule Cons.IH)
      show "Q x" if "x \<in> set rs" "P x" "cached_at r \<le> cached_at x" for x
        using Cons.prems(2) [of x] that by simp
    qed
    then show ?thesis using nq by simp
  next
    case True
    show ?thesis
    proof (cases "newest (filter P rs)")
      case None
      then have e: "filter P rs = []" by (simp add: newest_None_iff)
      have ra: "r = a" using Cons.prems(1) True None by simp
      have "filter Q rs = []" using e sub by auto
      moreover have "Q a" using Cons.prems(2) [of a] True ra by simp
      ultimately show ?thesis using ra by simp
    next
      case (Some r')
      show ?thesis
      proof (cases "cached_at r' \<ge> cached_at a")
        case ge: True
        have r: "r = r'" using Cons.prems(1) True Some ge by simp
        have "newest (filter P rs) = Some r" using Some r by simp
        then have "newest (filter Q rs) = Some r"
        proof (rule Cons.IH)
          show "Q x" if "x \<in> set rs" "P x" "cached_at r \<le> cached_at x" for x
            using Cons.prems(2) [of x] that by simp
        qed
        then show ?thesis using ge r by simp
      next
        case lt: False
        have r: "r = a" using Cons.prems(1) True Some lt by simp
        have qa: "Q a" using Cons.prems(2) [of a] True r by simp
        show ?thesis
        proof (cases "newest (filter Q rs)")
          case None
          then show ?thesis using qa r by simp
        next
          case Some'': (Some r'')
          then have "r'' \<in> set (filter Q rs)" using newest_max by blast
          then have "r'' \<in> set (filter P rs)" using sub by blast
          then have "cached_at r'' \<le> cached_at r'" using newest_max [OF Some] by blast
          then have "\<not> cached_at a \<le> cached_at r''" using lt by simp
          then show ?thesis using Some'' qa r by simp
        qed
      qed
    qed
  qed
qed

lemma hit_stays:
  assumes hit: "getCachedMempoolData db pair now = Some snap"
    and le: "now \<le> now'"
    and fresh: "\<exists>r \<in> set db. row_token_pair r = pair \<and> cached_at r > now' div 1000 - 3"
  shows "getCachedMempoolData db pair now' = Some snap"
proof -
  let ?P = "\<lambda>r. row_token_pair r = pair \<and> cached_at r > now div 1000 - 3"
  let ?Q = "\<lambda>r. row_token_pair r = pair \<and> cached_at r > now' div 1000 - 3"
  obtain r where r: "newest (filter ?P db) = Some r" "row_data r = snap"
    using hit by (auto simp: getCachedMempoolData_def Let_def)
  have s: "now div 1000 \<le> now' div 1000" using le by (rule zdiv_mono1) simp
  obtain r2 where r2: "r2 \<in> set db" "?Q r2" using fresh by blast
  then have "r2 \<in> set (filter ?P db)" using s by auto
  then have "cached_at r2 \<le> cached_at r" using newest_max [OF r(1)] by blast
  then have qr: "now' div 1000 - 3 < cached_at r" using r2 by simp
  have "newest (filter ?Q db) = Some r"
    using r(1)
  proof (rule newest_filter_stable)
    show "?P x" if "?Q x" for x using that s by auto
    show "?Q x" if "x \<in> set db" "?P x" "cached_at r \<le> cached_at x" for x
      using that qr by auto
  qed
  then show ?thesis using r(2) by (simp add: getCachedMempoolData_def Let_def)
qed

lemma miss_then_stored:
  assumes miss: "getCachedMempoolData db pair now = None"
    and le: "now \<le> now'"
    and fresh: "\<exists>r \<in> set (cacheMempoolData db pair snap t). row_token_pair r = pair \<and> cached_at r > now' div 1000 - 3"
  shows "getCachedMempoolData (cacheMempoolData db pair snap t) pair now' = Some snap"
proof -
  let ?P = "\<lambda>r. row_token_pair r = pair \<and> cached_at r > now div 1000 - 3"
  let ?Q = "\<lambda>r. row_token_pair r = pair \<and> cached_at r > now' div 1000 - 3"
  let ?new = "\<lparr>row_token_pair = pair, row_data = snap, cached_at = t div 1000\<rparr>"
  have s: "now div 1000 \<le> now' div 1000" using le by (rule zdiv_mono1) simp
  have "filter ?P db = []" using miss by (simp add: getCachedMempoolData_def Let_def newest_None_iff)
  then have old: "\<not> ?Q x" if "x \<in> set db" for x
    using that s by (auto simp: filter_empty_conv)
  then have "filter ?Q (filter (\<lambda>r. \<not> cached_at r < t div 1000 - 10) db) = []"
    by (auto simp: filter_empty_conv)
  moreover have "?Q ?new" using fresh old by (auto simp: cacheMempoolData_def)
  ultimately have "filter ?Q (cacheMempoolData db pair snap t) = [?new]"
    by (simp add: cacheMempoolData_def)
  then show ?thesis by (simp add: getCachedMempoolData_def Let_def)
qed

lemma stored_is_fresh:
  assumes "now \<le> t" "now' div 1000 < now div 1000 + 3"
  shows "\<exists>r \<in> set (cacheMempoolData db pair snap t). row_token_pair r = pair \<and> cached_at r > now' div 1000 - 3"
proof -
  have "now div 1000 \<le> t div 1000" using assms(1) by (rule zdiv_mono1) simp
  then show ?thesis using assms(2) by (simp add: cacheMempoolData_def)
qed

text \<open>
  Claim C8. Let a first call return a snapshot. A second call for the same pair that
  starts while the cache still holds a row for the pair younger than the TTL (the row's
  whole-second timestamp is above the second call's whole-second clock minus 3) returns
  the identical snapshot, leaves the cache unchanged and invokes no acquisition
  strategy, whatever the subscriber buffer and the upstream sources do at that time. When
  the first call fetched the snapshot itself, it suffices that the second call starts
  less than 3 whole clock seconds after the first one started.
\<close>

theorem cached_snapshot_reused:
  assumes first: "getRealMempoolData up ws db tokenIn tokenOut now later = (Inr snap, db', tr)"
    and clock: "now \<le> later" "now \<le> now'"
  shows "((\<exists>r \<in> set db'. row_token_pair r = tokenIn @ ''/'' @ tokenOut \<and> cached_at r > now' div 1000 - 3) \<longrightarrow>
            getRealMempoolData up' ws' db' tokenIn tokenOut now' later' = (Inr snap, db', []))
       \<and> (tr \<noteq> [] \<and> now' div 1000 < now div 1000 + 3 \<longrightarrow>
            getRealMempoolData up' ws' db' tokenIn tokenOut now' later' = (Inr snap, db', []))"
proof -
  let ?pair = "tokenIn @ ''/'' @ tokenOut"
  let ?fresh = "\<exists>r \<in> set db'. row_token_pair r = ?pair \<and> cached_at r > now' div 1000 - 3"
  have hit: "getCachedMempoolData db' ?pair now' = Some snap" if ?fresh
    using first_call_cases [OF first] that hit_stays [OF _ clock(2)] miss_then_stored [OF _ clock(2)]
    by blast
  have second: "getRealMempoolData up' ws' db' tokenIn tokenOut now' later' = (Inr snap, db', [])" if ?fresh
    using hit [OF that] by (simp add: getRealMempoolData_def)
  have "?fresh" if "tr \<noteq> []" "now' div 1000 < now div 1000 + 3"
    using first_call_cases [OF first] that stored_is_fresh [OF clock(1) that(2)]
      stored_is_fresh [OF order_refl that(2)]
    by blast
  then show ?thesis using second by blast
qed

text \<open>
  A first call at 1700000000.9 s fetches from the node; a second call at 1700000002.999 s
  gets the same snapshot from the cache although no source is reachable any more.
\<close>

theorem cached_snapshot_reused_witness:
  "getRealMempoolData infuraOnline initialPendingTxCache [] ''USDC'' ''ETH'' 1700000000900 1700000001100
     = (Inr rpcSnapshot,
        [\<lparr>row_token_pair = ''USDC/ETH'', row_data = rpcSnapshot, cached_at = 1700000001\<rparr>],
        [EthereumRPC])
   \<and> (1700000000900::int) \<le> 1700000001100 \<and> (1700000000900::int) \<le> 1700000002999
   \<and> (1700000002999::int) div 1000 < 1700000000900 div 1000 + 3
   \<and> cached_at \<lparr>row_token_pair = ''USDC/ETH'', row_data = rpcSnapshot, cached_at = 1700000001\<rparr>
        > 1700000002999 div 1000 - 3
   \<and> getRealMempoolData noKeysOffline fullBuffer
        [\<lparr>row_token_pair = ''USDC/ETH'', row_data = rpcSnapshot, cached_at = 1700000001\<rparr>]
        ''USDC'' ''ETH'' 1700000002999 1700000004000
     = (Inr rpcSnapshot,
        [\<lparr>row_token_pair = ''USDC/ETH'', row_data = rpcSnapshot, cached_at = 1700000001\<rparr>],
        [])"
proof -
  let ?db' = "[\<lparr>row_token_pair = ''USDC/ETH'', row_data = rpcSnapshot, cached_at = 1700000001\<rparr>]"
  have ok: "\<not> list_ex isl (map (getBlock steadyProvider) [100, 100 - 1, 100 - 2, 100 - 3, 100 - 4])"
    by (simp add: steadyProvider_def)
  have fees: "recentBaseFees steadyProvider 100
                = [12.3456789, 12.3456789, 12.3456789, 12.3456789, 12.3456789]"
    by (simp add: recentBaseFees_def steadyProvider_def baseFeeGwei_def)
  have gp: "getGasPricePercentiles steadyProvider 100 = \<lparr>p25 = 13.58, p50 = 15.43, p75 = 18.52, p90 = 24.69\<rparr>"
    using ok unfolding getGasPricePercentiles_cases fees
    by (simp add: percentileIndex_def toFixed2_def)
  have prov: "getProvider infuraOnline = Inr steadyProvider"
    by (simp add: getProvider_def infuraOnline_def noKeysOffline_def)
  have node: "getBlockNumber steadyProvider = Inr 100"
    "getBlock steadyProvider 100 = Inr (Some \<lparr>baseFeePerGas = Some 12345678900, txCount = Some 150\<rparr>)"
    "pendingAnalysis steadyProvider = ([], 0)"
    by (simp_all add: steadyProvider_def)
  have rpc: "fetchFromEthereumRPC infuraOnline ''USDC'' ''ETH'' 1700000001100 = Inr (Some rpcSnapshot)"
    unfolding fetchFromEthereumRPC_def prov
    by (simp add: node gp rpcSnapshot_def)
  have nokey: "\<not> BLOCKNATIVE_API_KEY infuraOnline"
    by (simp add: infuraOnline_def noKeysOffline_def)
  have first: "getRealMempoolData infuraOnline initialPendingTxCache [] ''USDC'' ''ETH'' 1700000000900 1700000001100
     = (Inr rpcSnapshot, ?db', [EthereumRPC])"
    unfolding getRealMempoolData_def
    by (simp add: rpc nokey getCachedMempoolData_def getWebSocketStatus_def initialPendingTxCache_def
          cacheMempoolData_def Let_def)
  have t: "(1700000000900::int) \<le> 1700000001100" "(1700000000900::int) \<le> 1700000002999"
    "(1700000002999::int) div 1000 < 1700000000900 div 1000 + 3"
    by simp_all
  have fresh: "\<exists>r \<in> set ?db'. row_token_pair r = ''USDC'' @ ''/'' @ ''ETH''
                 \<and> cached_at r > 1700000002999 div 1000 - 3"
    by simp
  have second: "getRealMempoolData noKeysOffline fullBuffer ?db' ''USDC'' ''ETH'' 1700000002999 1700000004000
     = (Inr rpcSnapshot, ?db', [])"
    using cached_snapshot_reused [OF first t(1,2), of noKeysOffline fullBuffer 1700000004000,
            THEN conjunct1] fresh
    by blast
  have age: "cached_at \<lparr>row_token_pair = ''USDC/ETH'', row_data = rpcSnapshot, cached_at = 1700000001\<rparr>
               > 1700000002999 div 1000 - 3"
    by simp
  show ?thesis using first t age second by blast
qed

end
